theory Spec2Isabelle
  imports Main
begin

section \<open>Backend: the application root module (src/Backend/src/app.module.ts)\<close>

text \<open>
  The file imports six classes and passes them to the \<^verbatim>\<open>@Module\<close> decorator of the
  empty class \<^verbatim>\<open>AppModule\<close>. The imported classes are the constructors of
  \<open>class_ref\<close>; the object literal given to the decorator is a record with the three
  keys the literal has, each an array in the order written.
\<close>

datatype class_ref =
    AppController
  | AppService
  | RedisModule
  | VoiceModule
  | DatabaseModule
  | StellarMonitorModule

record module_metadata =
  "imports" :: "class_ref list"
  controllers :: "class_ref list"
  providers :: "class_ref list"

definition AppModule :: module_metadata where
  "AppModule =
     \<lparr> imports = [DatabaseModule, RedisModule, VoiceModule, StellarMonitorModule],
       controllers = [AppController],
       providers = [AppService] \<rparr>"

text \<open>Everything a module's metadata registers, whatever the key.\<close>

definition registered :: "module_metadata \<Rightarrow> class_ref set" where
  "registered m = set (imports m) \<union> set (controllers m) \<union> set (providers m)"


section \<open>Frontend: the root layout (src/Frontend/src/app/layout.tsx)\<close>

text \<open>
  A React node is an element (its type, its attributes in the order written and its
  child expressions), a text, an array of nodes or nothing (\<^verbatim>\<open>null\<close>,
  \<^verbatim>\<open>undefined\<close>, a boolean). JSX drops the whitespace-only lines between tags, so
  \<^verbatim>\<open>html\<close> has one child expression, the \<^verbatim>\<open>body\<close> element, and
  \<^verbatim>\<open>body\<close> has one, \<^verbatim>\<open>{children}\<close>.
\<close>

datatype react_node =
    Element string "(string \<times> string) list" "react_node list"
  | TextNode string
  | NodeArray "react_node list"
  | Nothing

record page_metadata =
  title :: string
  description :: string

definition metadata :: page_metadata where
  "metadata =
     \<lparr> title = ''Stellara AI'',
       description = ''Learn. Trade. Connect. Powered by AI on Stellar.'' \<rparr>"

record root_layout_props =
  children :: react_node

definition RootLayout :: "root_layout_props \<Rightarrow> react_node" where
  "RootLayout props =
     Element ''html'' [(''lang'', ''en'')]
       [Element ''body'' [(''className'', ''min-h-screen bg-[#f9fafb] text-[#111827]'')]
          [children props]]"

text \<open>Reading a rendered tree: an element's type, an attribute, its child expressions.\<close>

fun elem_type :: "react_node \<Rightarrow> string option" where
  "elem_type (Element t ps cs) = Some t"
| "elem_type n = None"

fun attribute :: "react_node \<Rightarrow> string \<Rightarrow> string option" where
  "attribute (Element t ps cs) k = map_of ps k"
| "attribute n k = None"

fun child_nodes :: "react_node \<Rightarrow> react_node list" where
  "child_nodes (Element t ps cs) = cs"
| "child_nodes n = []"

text \<open>
  The child expressions of the \<open>t\<close> elements directly under a node: one entry per
  such element, in document order.
\<close>

definition contents_of :: "string \<Rightarrow> react_node \<Rightarrow> react_node list list" where
  "contents_of t n =
     map child_nodes (filter (\<lambda>c. elem_type c = Some t) (child_nodes n))"


section \<open>The application root module registers exactly what the file lists\<close>

text \<open>
  C9. The root module wires the Stellar monitor and the cache layer into the application:
  the imports of AppModule are exactly DatabaseModule, RedisModule, VoiceModule and
  StellarMonitorModule, in this order; its controllers are exactly AppController; its
  providers are exactly AppService; nothing else is registered at the root.
\<close>

theorem AppModule_wiring:
  "imports AppModule = [DatabaseModule, RedisModule, VoiceModule, StellarMonitorModule]
   \<and> controllers AppModule = [AppController]
   \<and> providers AppModule = [AppService]
   \<and> StellarMonitorModule \<in> set (imports AppModule)
   \<and> RedisModule \<in> set (imports AppModule)
   \<and> registered AppModule =
       {DatabaseModule, RedisModule, VoiceModule, StellarMonitorModule,
        AppController, AppService}
   \<and> length (imports AppModule) = 4
   \<and> distinct (imports AppModule @ controllers AppModule @ providers AppModule)"
  by (auto simp add: AppModule_def registered_def)


section \<open>The root layout wraps its children unchanged\<close>

text \<open>
  C10. RootLayout is a function of its children alone: for every children value it returns
  an html element whose lang attribute is "en", whose only child is a body element, and
  whose body holds exactly that children value, once and unchanged; two calls return the
  same tree exactly when they were given the same children. The exported metadata has the
  title "Stellara AI".
\<close>

theorem RootLayout_wraps_children:
  "elem_type (RootLayout props) = Some ''html''
   \<and> attribute (RootLayout props) ''lang'' = Some ''en''
   \<and> map elem_type (child_nodes (RootLayout props)) = [Some ''body'']
   \<and> contents_of ''body'' (RootLayout props) = [[children props]]
   \<and> (RootLayout props = RootLayout props') = (children props = children props')
   \<and> title metadata = ''Stellara AI''"
  by (simp add: RootLayout_def contents_of_def metadata_def)

end
